theory Spec2Isabelle
  imports Complex_Main
begin

section \<open>JavaScript values\<close>

text \<open>
  The middleware of \<^verbatim>\<open>src/main.js\<close> handles values it does not construct itself: the
  \<^verbatim>\<open>Authorization\<close> header handed over by the HTTP layer and the token info returned by
  the plugin. They are JavaScript values, so the model carries a small universe of them.

  A string is the list of its UTF-16 code units; the model covers the strings whose code
  units are all below 256 (a \<^typ>\<open>char\<close> is one such code unit). A number is a finite
  real (every finite double is one), \<^verbatim>\<open>NaN\<close> or an infinity. An object is the list of
  its own data properties.
\<close>

datatype jsnum = Finite real | NaN | PosInfinity | NegInfinity

datatype jsval =
    JUndefined
  | JNull
  | JBool bool
  | JNum jsnum
  | JStr string
  | JObject "(string \<times> jsval) list"

text \<open>What a \<^verbatim>\<open>throw\<close> or a rejected promise carries.\<close>

datatype js_error = TypeError | Error string | Thrown jsval

fun typeof :: "jsval \<Rightarrow> string" where
  "typeof JUndefined = ''undefined''"
| "typeof JNull = ''object''"
| "typeof (JBool b) = ''boolean''"
| "typeof (JNum n) = ''number''"
| "typeof (JStr s) = ''string''"
| "typeof (JObject ps) = ''object''"

text \<open>\<^verbatim>\<open>ToBoolean\<close>, as applied by \<^verbatim>\<open>!v\<close> and \<^verbatim>\<open>if (v)\<close>.\<close>

fun truthy :: "jsval \<Rightarrow> bool" where
  "truthy JUndefined = False"
| "truthy JNull = False"
| "truthy (JBool b) = b"
| "truthy (JNum (Finite x)) = (x \<noteq> 0)"
| "truthy (JNum NaN) = False"
| "truthy (JNum PosInfinity) = True"
| "truthy (JNum NegInfinity) = True"
| "truthy (JStr s) = (s \<noteq> [])"
| "truthy (JObject ps) = True"

text \<open>
  Property read \<^verbatim>\<open>v[k]\<close> (also \<^verbatim>\<open>v.k\<close> and \<^verbatim>\<open>const { k } = v\<close>): a \<^verbatim>\<open>TypeError\<close> on
  \<^verbatim>\<open>undefined\<close> and \<^verbatim>\<open>null\<close>. The code reads only the names \<^verbatim>\<open>type\<close>,
  \<^verbatim>\<open>client_id\<close>, \<^verbatim>\<open>realm\<close>, \<^verbatim>\<open>scope\<close>, \<^verbatim>\<open>not_after\<close>, \<^verbatim>\<open>user_id\<close> and \<^verbatim>\<open>error\<close>, none
  of which a built-in prototype defines, so a primitive yields \<^verbatim>\<open>undefined\<close> and an object
  its own property.
\<close>

fun get :: "jsval \<Rightarrow> string \<Rightarrow> js_error + jsval" where
  "get JUndefined k = Inl TypeError"
| "get JNull k = Inl TypeError"
| "get (JObject ps) k = Inr (case map_of ps k of None \<Rightarrow> JUndefined | Some v \<Rightarrow> v)"
| "get (JBool b) k = Inr JUndefined"
| "get (JNum n) k = Inr JUndefined"
| "get (JStr s) k = Inr JUndefined"

text \<open>The relational operator \<^verbatim>\<open>a > b\<close> on numbers: false whenever \<^verbatim>\<open>NaN\<close> takes part.\<close>

fun js_gt :: "jsnum \<Rightarrow> jsnum \<Rightarrow> bool" where
  "js_gt NaN b = False"
| "js_gt a NaN = False"
| "js_gt (Finite x) (Finite y) = (x > y)"
| "js_gt (Finite x) PosInfinity = False"
| "js_gt (Finite x) NegInfinity = True"
| "js_gt PosInfinity PosInfinity = False"
| "js_gt PosInfinity b = True"
| "js_gt NegInfinity b = False"

section \<open>String operations\<close>

text \<open>\<^verbatim>\<open>String.prototype.toLowerCase\<close> on code units below 256: the letters A to Z and the
  capital letters of the Latin-1 supplement (0xC0 to 0xDE without the multiplication sign
  0xD7) move up by 32.\<close>

definition toLowerCase_char :: "char \<Rightarrow> char" where
  "toLowerCase_char c =
     (let n = (of_char c :: nat)
      in if (65 \<le> n \<and> n \<le> 90) \<or> (192 \<le> n \<and> n \<le> 222 \<and> n \<noteq> 215)
         then char_of (n + 32) else c)"

definition toLowerCase :: "string \<Rightarrow> string" where
  "toLowerCase s = map toLowerCase_char s"

definition startsWith :: "string \<Rightarrow> string \<Rightarrow> bool" where
  "startsWith s p = (take (length p) s = p)"

text \<open>\<^verbatim>\<open>s.substr(start)\<close> with a start that is not negative and no length.\<close>

definition substr :: "string \<Rightarrow> nat \<Rightarrow> string" where
  "substr s start = drop start s"

text \<open>White space and line terminators among the code units below 256: TAB, LF, VT, FF,
  CR, SP and NBSP.\<close>

definition isWhiteSpace :: "char \<Rightarrow> bool" where
  "isWhiteSpace c = ((of_char c :: nat) \<in> {9, 10, 11, 12, 13, 32, 160})"

definition trim :: "string \<Rightarrow> string" where
  "trim s = rev (dropWhile isWhiteSpace (rev (dropWhile isWhiteSpace s)))"

text \<open>\<^verbatim>\<open>s.split(sep)\<close> for a separator of one code unit: the empty string splits into one
  empty piece, and two adjacent separators enclose an empty piece.\<close>

fun js_split :: "string \<Rightarrow> char \<Rightarrow> string list" where
  "js_split [] sep = [ [] ]"
| "js_split (c # cs) sep =
     (if c = sep then [] # js_split cs sep
      else (case js_split cs sep of
              [] \<Rightarrow> [ [c] ]
            | w # ws \<Rightarrow> (c # w) # ws))"

text \<open>\<^verbatim>\<open>xs.join(sep)\<close> on an array of strings.\<close>

fun join :: "string list \<Rightarrow> string \<Rightarrow> string" where
  "join [] sep = []"
| "join [x] sep = x"
| "join (x # y # ys) sep = x @ sep @ join (y # ys) sep"

text \<open>\<^verbatim>\<open>xs.includes(v)\<close> and \<^verbatim>\<open>xs.every(p)\<close>.\<close>

definition array_includes :: "string list \<Rightarrow> string \<Rightarrow> bool" where
  "array_includes xs v = (v \<in> set xs)"

definition every :: "string list \<Rightarrow> (string \<Rightarrow> bool) \<Rightarrow> bool" where
  "every xs p = list_all p xs"

text \<open>\<^verbatim>\<open>encodeURIComponent\<close>: letters, digits and the marks \<^verbatim>\<open>- _ . ! ~ * ' ( )\<close> stay; every
  other code unit is written as the percent-escaped octets of its UTF-8 encoding, one octet
  below 128 and two octets from 128 to 255, in upper-case hexadecimal.\<close>

definition uriUnescaped :: "char \<Rightarrow> bool" where
  "uriUnescaped c =
     (c \<in> set ''ABCDEFGHIJKLMNOPQRSTUVWXYZabcdefghijklmnopqrstuvwxyz0123456789-_.!~*()''
      \<or> c = CHR 0x27)"

definition hexDigit :: "nat \<Rightarrow> char" where
  "hexDigit n = ''0123456789ABCDEF'' ! (n mod 16)"

definition percent :: "nat \<Rightarrow> string" where
  "percent octet = [CHR ''%'', hexDigit (octet div 16), hexDigit (octet mod 16)]"

definition encode_char :: "char \<Rightarrow> string" where
  "encode_char c =
     (let n = (of_char c :: nat)
      in if uriUnescaped c then [c]
         else if n < 128 then percent n
         else percent (192 + n div 64) @ percent (128 + n mod 64))"

definition encodeURIComponent :: "string \<Rightarrow> string" where
  "encodeURIComponent s = concat (map encode_char s)"

section \<open>The class WebauthzExpress\<close>

text \<open>
  Everything the middleware does to its collaborators is recorded, in order, as a list of
  events: a call of the log, the call of the plugin's \<^verbatim>\<open>checkToken\<close>, the calls on the
  response \<^verbatim>\<open>res\<close>, and \<^verbatim>\<open>next()\<close>. A log event keeps the literal part of its message
  (the \<^verbatim>\<open>JSON.stringify\<close> text interpolated into some trace messages is not rendered); the
  log itself is taken not to throw.
\<close>

datatype event =
    LogTrace string
  | LogError string js_error
  | CheckToken string
  | ResStatus nat
  | ResSet string string
  | ResEnd
  | ResJson jsval
  | ResSend jsval
  | CallNext

text \<open>
  The plugin is its \<^verbatim>\<open>checkToken\<close>: given the token input it resolves to a value
  (\<open>Inr\<close>) or throws, which for an awaited promise includes rejecting (\<open>Inl\<close>).
\<close>

type_synonym plugin_t = "string \<Rightarrow> js_error + jsval"

text \<open>The constructor's argument: each property is absent or, where present, of its
  documented type.\<close>

record options =
  opt_plugin :: "plugin_t option"
  opt_realm :: "string option"
  opt_path :: "string option"
  opt_webauthz_discovery_uri :: "string option"

record webauthz_express =
  plugin :: plugin_t
  realm :: string
  path :: string
  webauthz_discovery_uri :: "string option"

text \<open>\<^verbatim>\<open>if (x)\<close> on an optional string: absent and the empty string are falsy.\<close>

fun given :: "string option \<Rightarrow> bool" where
  "given None = False"
| "given (Some s) = (s \<noteq> [])"

definition new_WebauthzExpress :: "options \<Rightarrow> js_error + webauthz_express" where
  "new_WebauthzExpress opts =
     (case opt_plugin opts of
        None \<Rightarrow> Inl (Error ''plugin is required'')
      | Some p \<Rightarrow>
          Inr \<lparr> plugin = p,
                realm = (if given (opt_realm opts) then the (opt_realm opts) else ''Webauthz''),
                path = (if given (opt_path opts) then the (opt_path opts) else ''/''),
                webauthz_discovery_uri =
                  (if given (opt_webauthz_discovery_uri opts)
                   then opt_webauthz_discovery_uri opts else None) \<rparr>)"

subsection \<open>The authorization result\<close>

text \<open>The object literal \<^verbatim>\<open>{ error: tag }\<close>.\<close>

definition error_object :: "string \<Rightarrow> jsval" where
  "error_object tag = JObject [(''error'', JStr tag)]"

text \<open>
  The body of the \<^verbatim>\<open>try\<close> block after \<^verbatim>\<open>checkToken\<close> has resolved with \<open>tokenInfo\<close>:
  the destructuring (which throws on \<^verbatim>\<open>undefined\<close> and \<^verbatim>\<open>null\<close>) and the expiry test
  against \<^verbatim>\<open>Date.now()\<close>, here \<open>now\<close>.
\<close>

definition check_expiry :: "int \<Rightarrow> jsval \<Rightarrow> js_error + (jsval \<times> event list)" where
  "check_expiry now tokenInfo =
     (case get tokenInfo ''not_after'' of
        Inl e \<Rightarrow> Inl e
      | Inr not_after \<Rightarrow>
          (case not_after of
             JNum n \<Rightarrow>
               if js_gt (Finite (real_of_int now)) n
               then Inr (error_object ''token-expired'', [LogTrace ''middleware: token expired''])
               else Inr (tokenInfo, [LogTrace ''middleware: valid token''])
           | _ \<Rightarrow> Inr (tokenInfo, [LogTrace ''middleware: valid token''])))"

text \<open>
  Lines 114 to 146 of \<^verbatim>\<open>middleware\<close>: from the value of the \<^verbatim>\<open>Authorization\<close> header to
  the object \<^verbatim>\<open>authorization\<close>, with the events on the way. The first case is
  \<^verbatim>\<open>typeof authorizationHeader !== 'string'\<close>.
\<close>

definition authorize :: "webauthz_express \<Rightarrow> int \<Rightarrow> jsval \<Rightarrow> jsval \<times> event list" where
  "authorize this now authorizationHeader =
     (case authorizationHeader of
        JStr h \<Rightarrow>
          if \<not> startsWith (toLowerCase h) ''bearer ''
          then (error_object ''authorization-header-not-bearer'',
                [LogTrace ''middleware: authorization header not bearer''])
          else
            (let tokenInput = trim (substr h (length ''bearer ''))
             in case plugin this tokenInput of
                  Inl err \<Rightarrow>
                    (error_object ''invalid-token'',
                     [CheckToken tokenInput, LogError ''middleware: valid token'' err])
                | Inr tokenInfo \<Rightarrow>
                    (case check_expiry now tokenInfo of
                       Inl err \<Rightarrow>
                         (error_object ''invalid-token'',
                          [CheckToken tokenInput, LogError ''middleware: valid token'' err])
                     | Inr (authorization, evs) \<Rightarrow>
                         (authorization, CheckToken tokenInput # evs)))
      | _ \<Rightarrow>
          (error_object ''authorization-header-not-found'',
           [LogTrace ''middleware: no authorization header in request'']))"

subsection \<open>The object req.webauthz\<close>

text \<open>
  The \<^verbatim>\<open>api\<close> object: its seven read-only data properties, and what its methods close
  over (\<^verbatim>\<open>this\<close>, \<^verbatim>\<open>requiredScopeList\<close> and \<^verbatim>\<open>authorization\<close>).
\<close>

record api =
  properties :: "(string \<times> jsval) list"
  api_this :: webauthz_express
  api_requiredScopeList :: "string list"
  api_authorization :: jsval

text \<open>\<^verbatim>\<open>authorization[item]\<close> where \<open>authorization\<close> is never \<^verbatim>\<open>undefined\<close> or \<^verbatim>\<open>null\<close>.\<close>

definition item_of :: "jsval \<Rightarrow> string \<Rightarrow> jsval" where
  "item_of authorization item =
     (case get authorization item of Inl e \<Rightarrow> JUndefined | Inr v \<Rightarrow> v)"

definition make_api :: "webauthz_express \<Rightarrow> string list \<Rightarrow> jsval \<Rightarrow> api" where
  "make_api this requiredScopeList authorization =
     \<lparr> properties =
         map (\<lambda>item. (item, item_of authorization item))
           [''type'', ''client_id'', ''realm'', ''scope'', ''not_after'', ''user_id'', ''error''],
       api_this = this,
       api_requiredScopeList = requiredScopeList,
       api_authorization = authorization \<rparr>"

text \<open>\<^verbatim>\<open>req.webauthz.header()\<close>: the events on the log and on the response.\<close>

definition header :: "api \<Rightarrow> event list" where
  "header a =
     [LogTrace ''middleware: header status 401'', ResStatus 401] @
     (if given (webauthz_discovery_uri (api_this a))
      then
        (let scopeEncoded = encodeURIComponent (join (api_requiredScopeList a) '' '');
             realmEncoded = encodeURIComponent (realm (api_this a));
             pathEncoded = encodeURIComponent (path (api_this a));
             webauthzDiscoveryUriEncoded =
               encodeURIComponent (the (webauthz_discovery_uri (api_this a)))
         in [LogTrace ''middleware: header www-authenticate'',
             ResSet ''WWW-Authenticate''
               (''Bearer realm='' @ realmEncoded @ '', scope='' @ scopeEncoded @
                '', webauthz_discovery_uri='' @ webauthzDiscoveryUriEncoded @
                '', path='' @ pathEncoded)])
      else [])"

definition empty :: "api \<Rightarrow> event list" where
  "empty a = header a @ [LogTrace ''middleware: empty'', ResEnd]"

definition json :: "api \<Rightarrow> jsval \<Rightarrow> event list" where
  "json a data = header a @ [LogTrace ''middleware: json'', ResJson data]"

definition html :: "api \<Rightarrow> jsval \<Rightarrow> event list" where
  "html a data = header a @ [LogTrace ''middleware: html'', ResSend data]"

text \<open>
  \<^verbatim>\<open>req.webauthz.isPermitted(...scope)\<close>. A scope that is truthy and not a string has no
  \<^verbatim>\<open>split\<close> method, so the call \<^verbatim>\<open>authorization.scope.split(' ')\<close> throws a \<^verbatim>\<open>TypeError\<close>.
\<close>

definition isPermitted :: "api \<Rightarrow> string list \<Rightarrow> js_error + bool" where
  "isPermitted a scope =
     (let checkScopeList =
            (if length scope > 0 then [] @ scope else [] @ api_requiredScopeList a);
          authorization_scope = item_of (api_authorization a) ''scope''
      in if \<not> truthy authorization_scope then Inr False
         else
           (case authorization_scope of
              JStr s \<Rightarrow>
                (let granted = js_split s CHR '' ''
                 in Inr (every checkScopeList (\<lambda>value. array_includes granted value)))
            | _ \<Rightarrow> Inl TypeError))"

subsection \<open>The middleware\<close>

text \<open>
  A request offers \<^verbatim>\<open>req.header(name)\<close>; it is a request that carries no \<^verbatim>\<open>webauthz\<close>
  property yet, so that defining the property succeeds. The middleware returns the \<^verbatim>\<open>api\<close>
  object it defines as \<^verbatim>\<open>req.webauthz\<close>, and its events, the last of which is \<^verbatim>\<open>next()\<close>.
\<close>

record request =
  req_header :: "string \<Rightarrow> jsval"

definition middleware ::
  "webauthz_express \<Rightarrow> string list \<Rightarrow> int \<Rightarrow> request \<Rightarrow> api \<times> event list" where
  "middleware this requiredScopeList now req =
     (let authorizationHeader = req_header req ''Authorization'';
          (authorization, evs) = authorize this now authorizationHeader
      in (make_api this requiredScopeList authorization,
          [LogTrace ''middleware: request headers '',
           LogTrace ''middleware: request body '',
           LogTrace ''middleware: header value ''] @ evs @
          [LogTrace ''middleware: authorization result: '',
           LogTrace ''middleware: next...'',
           CallNext]))"

text \<open>The method \<^verbatim>\<open>scope(...requiredScopeList)\<close>: one trace, then the middleware closed
  over the list.\<close>

definition scope ::
  "webauthz_express \<Rightarrow> string list \<Rightarrow>
     event list \<times> (int \<Rightarrow> request \<Rightarrow> api \<times> event list)" where
  "scope this requiredScopeList =
     ([LogTrace ''middleware: init with requiredScopeList ''],
      middleware this requiredScopeList)"

subsection \<open>Observing the events\<close>

text \<open>The token inputs handed to \<^verbatim>\<open>checkToken\<close>, one for each call, in order.\<close>

fun checkToken_calls :: "event list \<Rightarrow> string list" where
  "checkToken_calls [] = []"
| "checkToken_calls (CheckToken t # es) = t # checkToken_calls es"
| "checkToken_calls (e # es) = checkToken_calls es"

text \<open>The status codes passed to \<^verbatim>\<open>res.status\<close> and the pairs passed to \<^verbatim>\<open>res.set\<close>.\<close>

fun res_status_calls :: "event list \<Rightarrow> nat list" where
  "res_status_calls [] = []"
| "res_status_calls (ResStatus code # es) = code # res_status_calls es"
| "res_status_calls (e # es) = res_status_calls es"

fun res_set_calls :: "event list \<Rightarrow> (string \<times> string) list" where
  "res_set_calls [] = []"
| "res_set_calls (ResSet field val # es) = (field, val) # res_set_calls es"
| "res_set_calls (e # es) = res_set_calls es"

subsection \<open>The bearer scheme, as the specification words it\<close>

text \<open>
  The specification asks that the header start with the scheme token \<^verbatim>\<open>bearer \<close> without
  regard to case: seven code units, the letters of \<^verbatim>\<open>bearer\<close> each in either case, then a
  space. This predicate is written from those words; \<open>startsWith_bearer_iff\<close> below
  compares it with the test the code performs.
\<close>

fun bearer_ignoring_case :: "string \<Rightarrow> bool" where
  "bearer_ignoring_case (c0 # c1 # c2 # c3 # c4 # c5 # c6 # rest) =
     (c0 \<in> {CHR ''b'', CHR ''B''} \<and> c1 \<in> {CHR ''e'', CHR ''E''} \<and>
      c2 \<in> {CHR ''a'', CHR ''A''} \<and> c3 \<in> {CHR ''r'', CHR ''R''} \<and>
      c4 \<in> {CHR ''e'', CHR ''E''} \<and> c5 \<in> {CHR ''r'', CHR ''R''} \<and> c6 = CHR '' '')"
| "bearer_ignoring_case h = False"

subsection \<open>A server and a plugin to run the model on\<close>

text \<open>
  The plugin knows the token \<^verbatim>\<open>abc123\<close>, granted \<^verbatim>\<open>calendar contacts\<close> until the
  instant 2000, and the token \<^verbatim>\<open>forever\<close>, granted \<^verbatim>\<open>calendar\<close> with no \<^verbatim>\<open>not_after\<close>;
  it throws on every other input. The server is configured with the path \<^verbatim>\<open>/api\<close> and
  the discovery URI \<^verbatim>\<open>https://x/d.json\<close>.
\<close>

definition example_plugin :: plugin_t where
  "example_plugin tokenInput =
     (if tokenInput = ''abc123''
      then Inr (JObject [(''client_id'', JStr ''client-1''),
                         (''scope'', JStr ''calendar contacts''),
                         (''not_after'', JNum (Finite 2000))])
      else if tokenInput = ''forever''
      then Inr (JObject [(''client_id'', JStr ''client-2''), (''scope'', JStr ''calendar'')])
      else Inl (Error ''unknown token''))"

definition example_options :: options where
  "example_options =
     \<lparr> opt_plugin = Some example_plugin, opt_realm = None, opt_path = Some ''/api'',
       opt_webauthz_discovery_uri = Some ''https://x/d.json'' \<rparr>"

definition example_server :: webauthz_express where
  "example_server =
     \<lparr> plugin = example_plugin, realm = ''Webauthz'', path = ''/api'',
       webauthz_discovery_uri = Some ''https://x/d.json'' \<rparr>"

definition example_request :: "jsval \<Rightarrow> request" where
  "example_request authorizationHeader =
     \<lparr> req_header = (\<lambda>name. if name = ''Authorization'' then authorizationHeader
                              else JUndefined) \<rparr>"

section \<open>Basic facts\<close>

lemma make_api_sel [simp]:
  "api_authorization (make_api this required authorization) = authorization"
  "api_requiredScopeList (make_api this required authorization) = required"
  "api_this (make_api this required authorization) = this"
  by (simp_all add: make_api_def)

lemma typeof_string_iff: "typeof v = ''string'' \<longleftrightarrow> (\<exists>s. v = JStr s)"
  by (cases v) simp_all

lemma item_of_JObject [simp]:
  "item_of (JObject ps) item = (case map_of ps item of None \<Rightarrow> JUndefined | Some v \<Rightarrow> v)"
  by (simp add: item_of_def)

lemma item_of_error_object [simp]:
  "item_of (error_object tag) item = (if item = ''error'' then JStr tag else JUndefined)"
  by (simp add: item_of_def error_object_def)

lemma properties_error_object:
  "properties (make_api this required (error_object tag)) =
     [(''type'', JUndefined), (''client_id'', JUndefined), (''realm'', JUndefined),
      (''scope'', JUndefined), (''not_after'', JUndefined), (''user_id'', JUndefined),
      (''error'', JStr tag)]"
  by (simp add: make_api_def)

subsection \<open>Strings\<close>

lemma of_char_lt_256: "(of_char c :: nat) < 256"
  by (cases c) (simp add: of_char_def horner_sum_simps)

lemma chr_eq_iff: "c = d \<longleftrightarrow> (of_char c :: nat) = of_char d"
  by simp

lemma toLowerCase_char_code:
  "(of_char (toLowerCase_char c) :: nat) =
     (let n = of_char c
      in if (65 \<le> n \<and> n \<le> 90) \<or> (192 \<le> n \<and> n \<le> 222 \<and> n \<noteq> 215) then n + 32 else n)"
  using of_char_lt_256 [of c] by (simp add: toLowerCase_char_def Let_def)

lemma toLowerCase_char_b: "toLowerCase_char c = CHR ''b'' \<longleftrightarrow> c = CHR ''b'' \<or> c = CHR ''B''"
  using chr_eq_iff [of "toLowerCase_char c" "CHR ''b''"] chr_eq_iff [of c "CHR ''b''"]
    chr_eq_iff [of c "CHR ''B''"]
  by (auto simp add: toLowerCase_char_code Let_def split: if_splits)

lemma toLowerCase_char_e: "toLowerCase_char c = CHR ''e'' \<longleftrightarrow> c = CHR ''e'' \<or> c = CHR ''E''"
  using chr_eq_iff [of "toLowerCase_char c" "CHR ''e''"] chr_eq_iff [of c "CHR ''e''"]
    chr_eq_iff [of c "CHR ''E''"]
  by (auto simp add: toLowerCase_char_code Let_def split: if_splits)

lemma toLowerCase_char_a: "toLowerCase_char c = CHR ''a'' \<longleftrightarrow> c = CHR ''a'' \<or> c = CHR ''A''"
  using chr_eq_iff [of "toLowerCase_char c" "CHR ''a''"] chr_eq_iff [of c "CHR ''a''"]
    chr_eq_iff [of c "CHR ''A''"]
  by (auto simp add: toLowerCase_char_code Let_def split: if_splits)

lemma toLowerCase_char_r: "toLowerCase_char c = CHR ''r'' \<longleftrightarrow> c = CHR ''r'' \<or> c = CHR ''R''"
  using chr_eq_iff [of "toLowerCase_char c" "CHR ''r''"] chr_eq_iff [of c "CHR ''r''"]
    chr_eq_iff [of c "CHR ''R''"]
  by (auto simp add: toLowerCase_char_code Let_def split: if_splits)

lemma toLowerCase_char_space: "toLowerCase_char c = CHR '' '' \<longleftrightarrow> c = CHR '' ''"
  using chr_eq_iff [of "toLowerCase_char c" "CHR '' ''"] chr_eq_iff [of c "CHR '' ''"]
  by (auto simp add: toLowerCase_char_code Let_def split: if_splits)

lemma startsWith_bearer_iff:
  "startsWith (toLowerCase h) ''bearer '' \<longleftrightarrow> bearer_ignoring_case h"
  by (cases h rule: bearer_ignoring_case.cases)
     (simp_all add: startsWith_def toLowerCase_def toLowerCase_char_b toLowerCase_char_e
        toLowerCase_char_a toLowerCase_char_r toLowerCase_char_space)

lemma rev_dropWhile_takeWhile:
  "xs = rev (dropWhile P (rev xs)) @ rev (takeWhile P (rev xs))"
  by (metis rev_append rev_rev_ident takeWhile_dropWhile_id)

lemma trim_decomposition:
  "\<exists>pre suf. s = pre @ trim s @ suf
      \<and> (\<forall>c \<in> set pre. isWhiteSpace c) \<and> (\<forall>c \<in> set suf. isWhiteSpace c)"
proof -
  let ?t = "dropWhile isWhiteSpace s"
  have t: "?t = trim s @ rev (takeWhile isWhiteSpace (rev ?t))"
    unfolding trim_def by (rule rev_dropWhile_takeWhile)
  have "s = takeWhile isWhiteSpace s @ ?t"
    by simp
  with t have "s = takeWhile isWhiteSpace s @ trim s @ rev (takeWhile isWhiteSpace (rev ?t))"
    by simp
  moreover have "\<forall>c \<in> set (takeWhile isWhiteSpace s). isWhiteSpace c"
    by (auto dest: set_takeWhileD)
  moreover have "\<forall>c \<in> set (rev (takeWhile isWhiteSpace (rev ?t))). isWhiteSpace c"
    by (auto dest: set_takeWhileD)
  ultimately show ?thesis by blast
qed

lemma trim_ends:
  assumes "trim s \<noteq> []"
  shows "\<not> isWhiteSpace (hd (trim s)) \<and> \<not> isWhiteSpace (last (trim s))"
proof -
  let ?t = "dropWhile isWhiteSpace s"
  let ?u = "dropWhile isWhiteSpace (rev ?t)"
  from assms have u: "?u \<noteq> []" by (simp add: trim_def)
  then have "\<not> isWhiteSpace (hd ?u)" by (rule hd_dropWhile)
  with u have l: "\<not> isWhiteSpace (last (trim s))"
    by (simp add: trim_def last_rev)
  from u have "rev ?t \<noteq> []" by (metis dropWhile.simps(1))
  then have t: "?t \<noteq> []" by (simp only: rev_is_Nil_conv not_False_eq_True)
  then have ht: "\<not> isWhiteSpace (hd ?t)" by (rule hd_dropWhile)
  have "?t = trim s @ rev (takeWhile isWhiteSpace (rev ?t))"
    unfolding trim_def by (rule rev_dropWhile_takeWhile)
  with assms have "hd ?t = hd (trim s)" by (metis hd_append2)
  with ht l show ?thesis by simp
qed

lemma hexDigit_unescaped: "uriUnescaped (hexDigit n)"
proof -
  have "hexDigit n \<in> set ''0123456789ABCDEF''"
    unfolding hexDigit_def by (rule nth_mem) simp
  then show ?thesis
    by (auto simp add: uriUnescaped_def)
qed

text \<open>The encoded text consists of unescaped code units and percent signs only: it holds
  no space, comma or equals sign.\<close>

lemma encodeURIComponent_alphabet:
  "c \<in> set (encodeURIComponent s) \<Longrightarrow> uriUnescaped c \<or> c = CHR ''%''"
  by (auto simp add: encodeURIComponent_def encode_char_def percent_def Let_def
        hexDigit_unescaped split: if_splits)

subsection \<open>isPermitted\<close>

lemma isPermitted_string_scope:
  "item_of (api_authorization a) ''scope'' = JStr s \<Longrightarrow>
   isPermitted a args =
     Inr (s \<noteq> [] \<and> (\<forall>name \<in> set (if args \<noteq> [] then args else api_requiredScopeList a).
                     name \<in> set (js_split s CHR '' '')))"
  by (simp add: isPermitted_def every_def array_includes_def list_all_iff Let_def)

lemma isPermitted_falsy_scope:
  "\<not> truthy (item_of (api_authorization a) ''scope'') \<Longrightarrow> isPermitted a args = Inr False"
  by (simp add: isPermitted_def Let_def)

lemma isPermitted_error_object:
  "isPermitted (make_api this required (error_object tag)) args = Inr False"
  by (simp add: isPermitted_falsy_scope)

subsection \<open>The branches of the authorization\<close>

lemma authorize_not_string:
  "typeof v \<noteq> ''string'' \<Longrightarrow>
   authorize this now v =
     (error_object ''authorization-header-not-found'',
      [LogTrace ''middleware: no authorization header in request''])"
  by (cases v) (simp_all add: authorize_def)

lemma authorize_not_bearer:
  "\<not> startsWith (toLowerCase h) ''bearer '' \<Longrightarrow>
   authorize this now (JStr h) =
     (error_object ''authorization-header-not-bearer'',
      [LogTrace ''middleware: authorization header not bearer''])"
  by (simp add: authorize_def)

lemma authorize_throws:
  "startsWith (toLowerCase h) ''bearer '' \<Longrightarrow> plugin this (trim (substr h 7)) = Inl err \<Longrightarrow>
   authorize this now (JStr h) =
     (error_object ''invalid-token'',
      [CheckToken (trim (substr h 7)), LogError ''middleware: valid token'' err])"
  by (simp add: authorize_def eval_nat_numeral)

lemma authorize_resolves:
  "startsWith (toLowerCase h) ''bearer '' \<Longrightarrow> plugin this (trim (substr h 7)) = Inr tokenInfo \<Longrightarrow>
   authorize this now (JStr h) =
     (case check_expiry now tokenInfo of
        Inl err \<Rightarrow> (error_object ''invalid-token'',
                    [CheckToken (trim (substr h 7)), LogError ''middleware: valid token'' err])
      | Inr (authorization, evs) \<Rightarrow> (authorization, CheckToken (trim (substr h 7)) # evs))"
  by (simp add: authorize_def eval_nat_numeral Let_def split: sum.splits prod.splits)

lemma check_expiry_expired:
  "get tokenInfo ''not_after'' = Inr (JNum n) \<Longrightarrow> js_gt (Finite (real_of_int now)) n \<Longrightarrow>
   check_expiry now tokenInfo =
     Inr (error_object ''token-expired'', [LogTrace ''middleware: token expired''])"
  by (simp add: check_expiry_def)

lemma check_expiry_not_number:
  "get tokenInfo ''not_after'' = Inr v \<Longrightarrow> typeof v \<noteq> ''number'' \<Longrightarrow>
   check_expiry now tokenInfo = Inr (tokenInfo, [LogTrace ''middleware: valid token''])"
  by (cases v) (simp_all add: check_expiry_def)

lemma check_expiry_not_before:
  "get tokenInfo ''not_after'' = Inr (JNum n) \<Longrightarrow> \<not> js_gt (Finite (real_of_int now)) n \<Longrightarrow>
   check_expiry now tokenInfo = Inr (tokenInfo, [LogTrace ''middleware: valid token''])"
  by (simp add: check_expiry_def)

lemma check_expiry_cases:
  "check_expiry now tokenInfo = Inl TypeError
   \<or> check_expiry now tokenInfo =
       Inr (error_object ''token-expired'', [LogTrace ''middleware: token expired''])
   \<or> check_expiry now tokenInfo = Inr (tokenInfo, [LogTrace ''middleware: valid token''])"
  by (cases tokenInfo; simp add: check_expiry_def split: jsval.splits option.splits)

text \<open>The authorization result is never \<^verbatim>\<open>undefined\<close> or \<^verbatim>\<open>null\<close>: each of its properties
  can be read.\<close>

lemma authorize_readable: "\<exists>x. get (fst (authorize this now v)) item = Inr x"
proof (cases v)
  case (JStr h)
  show ?thesis
  proof (cases "startsWith (toLowerCase h) ''bearer ''")
    case True
    show ?thesis
    proof (cases "plugin this (trim (substr h 7))")
      case (Inl err)
      with True JStr show ?thesis by (simp add: authorize_throws error_object_def)
    next
      case (Inr tokenInfo)
      with True JStr show ?thesis
        by (cases tokenInfo)
           (auto simp add: authorize_resolves check_expiry_def error_object_def
              split: jsval.splits option.splits)
    qed
  next
    case False
    with JStr show ?thesis by (simp add: authorize_not_bearer error_object_def)
  qed
qed (simp_all add: authorize_not_string error_object_def)

lemma middleware_eq:
  "middleware this required now req =
     (make_api this required (fst (authorize this now (req_header req ''Authorization''))),
      [LogTrace ''middleware: request headers '',
       LogTrace ''middleware: request body '',
       LogTrace ''middleware: header value ''] @
      snd (authorize this now (req_header req ''Authorization'')) @
      [LogTrace ''middleware: authorization result: '',
       LogTrace ''middleware: next...'',
       CallNext])"
  by (simp add: middleware_def Let_def split: prod.splits)

subsection \<open>Calls of the plugin\<close>

lemma checkToken_calls_append [simp]:
  "checkToken_calls (xs @ ys) = checkToken_calls xs @ checkToken_calls ys"
  by (induction xs rule: checkToken_calls.induct) simp_all

lemma checkToken_calls_authorize:
  "checkToken_calls (snd (authorize this now v)) =
     (case v of
        JStr h \<Rightarrow> if startsWith (toLowerCase h) ''bearer '' then [trim (substr h 7)] else []
      | _ \<Rightarrow> [])"
proof (cases v)
  case (JStr h)
  show ?thesis
  proof (cases "startsWith (toLowerCase h) ''bearer ''")
    case True
    show ?thesis
    proof (cases "plugin this (trim (substr h 7))")
      case (Inl err)
      with True JStr show ?thesis by (simp add: authorize_throws)
    next
      case (Inr tokenInfo)
      with True JStr check_expiry_cases [of now tokenInfo] show ?thesis
        by (auto simp add: authorize_resolves)
    qed
  next
    case False
    with JStr show ?thesis by (simp add: authorize_not_bearer)
  qed
qed (simp_all add: authorize_not_string)

subsection \<open>The example headers\<close>

lemma bearer_abc123: "startsWith (toLowerCase ''Bearer   abc123  '') ''bearer ''"
  by code_simp

lemma token_abc123: "trim (substr ''Bearer   abc123  '' 7) = ''abc123''"
  by code_simp

lemma bearer_forever: "startsWith (toLowerCase ''bearer forever'') ''bearer ''"
  by code_simp

lemma token_forever: "trim (substr ''bearer forever'' 7) = ''forever''"
  by code_simp

lemma bearer_nobody: "startsWith (toLowerCase ''BEARER nobody'') ''bearer ''"
  by code_simp

lemma token_nobody: "trim (substr ''BEARER nobody'' 7) = ''nobody''"
  by code_simp

lemma not_bearer_basic: "\<not> startsWith (toLowerCase ''Basic xyz'') ''bearer ''"
  by code_simp

lemma plugin_abc123:
  "plugin example_server (trim (substr ''Bearer   abc123  '' 7)) =
     Inr (JObject [(''client_id'', JStr ''client-1''),
                   (''scope'', JStr ''calendar contacts''),
                   (''not_after'', JNum (Finite 2000))])"
  by (simp add: token_abc123 example_server_def example_plugin_def)

lemma plugin_forever:
  "plugin example_server (trim (substr ''bearer forever'' 7)) =
     Inr (JObject [(''client_id'', JStr ''client-2''), (''scope'', JStr ''calendar'')])"
  by (simp add: token_forever example_server_def example_plugin_def)

lemma plugin_nobody:
  "plugin example_server (trim (substr ''BEARER nobody'' 7)) = Inl (Error ''unknown token'')"
  by (simp add: token_nobody example_server_def example_plugin_def)

lemma not_after_abc123:
  "get (JObject [(''client_id'', JStr ''client-1''),
                 (''scope'', JStr ''calendar contacts''),
                 (''not_after'', JNum (Finite 2000))]) ''not_after'' = Inr (JNum (Finite 2000))"
  by simp

lemma not_after_forever:
  "get (JObject [(''client_id'', JStr ''client-2''), (''scope'', JStr ''calendar'')])
     ''not_after'' = Inr JUndefined"
  by simp

lemma scope_middleware [simp]: "snd (scope this required) = middleware this required"
  by (simp add: scope_def)

lemma example_request_header [simp]:
  "req_header (example_request v) ''Authorization'' = v"
  by (simp add: example_request_def)

lemma bearer_ignoring_case_abc123: "bearer_ignoring_case ''Bearer   abc123  ''"
  by simp

lemma not_bearer_ignoring_case_basic: "\<not> bearer_ignoring_case ''Basic xyz''"
  by simp

lemma trim_abc123: "trim ''  abc123  '' = ''abc123''"
  by code_simp

lemma encoded_realm: "encodeURIComponent ''Webauthz'' = ''Webauthz''"
  by code_simp

lemma encoded_scope: "encodeURIComponent ''a b'' = ''a%20b''"
  by code_simp

lemma encoded_discovery_uri: "encodeURIComponent ''https://x/d.json'' = ''https%3A%2F%2Fx%2Fd.json''"
  by code_simp

lemma encoded_path: "encodeURIComponent ''/api'' = ''%2Fapi''"
  by code_simp

lemma new_example_server: "new_WebauthzExpress example_options = Inr example_server"
  by (simp add: new_WebauthzExpress_def example_options_def example_server_def)

lemma new_example_server_without_discovery:
  "new_WebauthzExpress (example_options \<lparr> opt_webauthz_discovery_uri := None \<rparr>) =
     Inr (example_server \<lparr> webauthz_discovery_uri := None \<rparr>)"
  by (simp add: new_WebauthzExpress_def example_options_def example_server_def)

section \<open>The scope check\<close>

text \<open>
  C1. Let the authorization result carry a granted scope string, that is a \<^verbatim>\<open>scope\<close>
  property holding a string that is not empty. The check-list of \<^verbatim>\<open>isPermitted\<close> is the
  list of its arguments, or the bound \<^verbatim>\<open>requiredScopeList\<close> when it is called without
  arguments. Then \<^verbatim>\<open>isPermitted\<close> returns, without throwing, whether every name of the
  check-list is among the pieces into which \<^verbatim>\<open>split(' ')\<close> cuts the scope string.
\<close>

theorem isPermitted_iff_all_granted:
  assumes "get authorization ''scope'' = Inr (JStr s)" and "s \<noteq> []"
  shows "isPermitted (make_api this required authorization) args =
           Inr (\<forall>name \<in> set (if args \<noteq> [] then args else required).
                  name \<in> set (js_split s CHR '' ''))"
  using assms by (simp add: isPermitted_string_scope item_of_def)

text \<open>
  With \<^verbatim>\<open>calendar contacts\<close> granted: \<^verbatim>\<open>isPermitted('calendar','contacts')\<close> is true,
  \<^verbatim>\<open>isPermitted('calendar','admin')\<close> is false, and \<^verbatim>\<open>isPermitted()\<close> under the bound list
  \<^verbatim>\<open>['calendar']\<close> is true.
\<close>

theorem isPermitted_iff_all_granted_witness:
  "isPermitted (make_api example_server []
       (JObject [(''scope'', JStr ''calendar contacts'')])) [''calendar'', ''contacts''] = Inr True
   \<and> isPermitted (make_api example_server []
       (JObject [(''scope'', JStr ''calendar contacts'')])) [''calendar'', ''admin''] = Inr False
   \<and> isPermitted (make_api example_server [''calendar'']
       (JObject [(''scope'', JStr ''calendar contacts'')])) [] = Inr True"
  using isPermitted_iff_all_granted [of "JObject [(''scope'', JStr ''calendar contacts'')]"
          "''calendar contacts''" example_server "[]" "[''calendar'', ''contacts'']"]
        isPermitted_iff_all_granted [of "JObject [(''scope'', JStr ''calendar contacts'')]"
          "''calendar contacts''" example_server "[]" "[''calendar'', ''admin'']"]
        isPermitted_iff_all_granted [of "JObject [(''scope'', JStr ''calendar contacts'')]"
          "''calendar contacts''" example_server "[''calendar'']" "[]"]
  by simp

section \<open>The validation of the token\<close>

text \<open>
  C3. Let the header be a bearer credential and let \<^verbatim>\<open>checkToken\<close> resolve with a token
  info whose \<^verbatim>\<open>not_after\<close> can be read. If \<^verbatim>\<open>not_after\<close> is a number that the current
  time exceeds, the authorization result is \<^verbatim>\<open>{ error: 'token-expired' }\<close> and
  \<^verbatim>\<open>isPermitted\<close> returns false for every bound list and every argument list, whatever
  scope the token info held. If \<^verbatim>\<open>not_after\<close> is not a number (absent included), or is a
  number that the current time does not exceed, the authorization result is the token info
  itself, with all its attributes.
\<close>

theorem expiry_policy:
  assumes "startsWith (toLowerCase h) ''bearer ''"
    and "plugin this (trim (substr h 7)) = Inr tokenInfo"
    and "get tokenInfo ''not_after'' = Inr not_after"
  shows "(\<forall>n. not_after = JNum n \<and> js_gt (Finite (real_of_int now)) n \<longrightarrow>
            fst (authorize this now (JStr h)) = error_object ''token-expired''
            \<and> (\<forall>required args.
                  isPermitted (make_api this required (fst (authorize this now (JStr h)))) args
                  = Inr False))
         \<and> (typeof not_after \<noteq> ''number'' \<longrightarrow> fst (authorize this now (JStr h)) = tokenInfo)
         \<and> (\<forall>n. not_after = JNum n \<and> \<not> js_gt (Finite (real_of_int now)) n \<longrightarrow>
               fst (authorize this now (JStr h)) = tokenInfo)"
  using assms
  by (simp add: authorize_resolves check_expiry_expired check_expiry_not_number
        check_expiry_not_before isPermitted_error_object)

text \<open>
  The token \<^verbatim>\<open>abc123\<close> lasts until 2000: at 3000 it has expired and \<^verbatim>\<open>calendar\<close> is
  refused, at 2000 itself it is still valid. The token \<^verbatim>\<open>forever\<close> has no \<^verbatim>\<open>not_after\<close>.
\<close>

theorem expiry_policy_witness:
  "fst (authorize example_server 3000 (JStr ''Bearer   abc123  '')) =
     error_object ''token-expired''
   \<and> isPermitted (make_api example_server []
         (fst (authorize example_server 3000 (JStr ''Bearer   abc123  '')))) [''calendar'']
       = Inr False
   \<and> fst (authorize example_server 2000 (JStr ''Bearer   abc123  '')) =
         JObject [(''client_id'', JStr ''client-1''), (''scope'', JStr ''calendar contacts''),
                  (''not_after'', JNum (Finite 2000))]
   \<and> fst (authorize example_server 3000 (JStr ''bearer forever'')) =
         JObject [(''client_id'', JStr ''client-2''), (''scope'', JStr ''calendar'')]"
  using expiry_policy [OF bearer_abc123 plugin_abc123 not_after_abc123, of 3000]
        expiry_policy [OF bearer_abc123 plugin_abc123 not_after_abc123, of 2000]
        expiry_policy [OF bearer_forever plugin_forever not_after_forever, of 3000]
  by auto

text \<open>
  C4. Let the header be a bearer credential and let \<^verbatim>\<open>checkToken\<close> throw or reject with
  \<open>err\<close>. Then the middleware completes: it calls \<^verbatim>\<open>checkToken\<close> once, logs \<open>err\<close> through
  \<^verbatim>\<open>log.error\<close>, builds the \<^verbatim>\<open>api\<close> object on the authorization result
  \<^verbatim>\<open>{ error: 'invalid-token' }\<close> and ends with \<^verbatim>\<open>next()\<close>. The object shows the error tag
  \<^verbatim>\<open>invalid-token\<close>, and its \<^verbatim>\<open>isPermitted\<close> returns false without throwing.
\<close>

theorem validator_failure_is_invalid:
  assumes "req_header req ''Authorization'' = JStr h"
    and "startsWith (toLowerCase h) ''bearer ''"
    and "plugin this (trim (substr h 7)) = Inl err"
  shows "middleware this required now req =
           (make_api this required (error_object ''invalid-token''),
            [LogTrace ''middleware: request headers '',
             LogTrace ''middleware: request body '',
             LogTrace ''middleware: header value '',
             CheckToken (trim (substr h 7)),
             LogError ''middleware: valid token'' err,
             LogTrace ''middleware: authorization result: '',
             LogTrace ''middleware: next...'',
             CallNext])
         \<and> map_of (properties (fst (middleware this required now req))) ''error'' =
             Some (JStr ''invalid-token'')
         \<and> (\<forall>args. isPermitted (fst (middleware this required now req)) args = Inr False)"
  using assms
  by (simp add: middleware_eq authorize_throws properties_error_object isPermitted_error_object)

theorem validator_failure_is_invalid_witness:
  "middleware example_server [''calendar''] 1000 (example_request (JStr ''BEARER nobody'')) =
     (make_api example_server [''calendar''] (error_object ''invalid-token''),
      [LogTrace ''middleware: request headers '',
       LogTrace ''middleware: request body '',
       LogTrace ''middleware: header value '',
       CheckToken ''nobody'',
       LogError ''middleware: valid token'' (Error ''unknown token''),
       LogTrace ''middleware: authorization result: '',
       LogTrace ''middleware: next...'',
       CallNext])
   \<and> isPermitted (fst (middleware example_server [''calendar''] 1000
         (example_request (JStr ''BEARER nobody'')))) [] = Inr False"
  using validator_failure_is_invalid [OF example_request_header bearer_nobody plugin_nobody,
          of "[''calendar'']" 1000]
  by (auto simp add: token_nobody)

text \<open>
  C7. When the request has no \<^verbatim>\<open>Authorization\<close> header (\<^verbatim>\<open>req.header\<close> returns
  \<^verbatim>\<open>undefined\<close>, or anything that is not a string), the \<^verbatim>\<open>api\<close> object is built on
  \<^verbatim>\<open>{ error: 'authorization-header-not-found' }\<close>: its \<^verbatim>\<open>error\<close> is that tag, its scope
  and its identity attributes are \<^verbatim>\<open>undefined\<close>, and \<^verbatim>\<open>isPermitted\<close> returns false for every
  argument list, under every bound list.
\<close>

theorem absent_header_denied:
  assumes "typeof (req_header req ''Authorization'') \<noteq> ''string''"
  shows "api_authorization (fst (middleware this required now req)) =
           error_object ''authorization-header-not-found''
         \<and> properties (fst (middleware this required now req)) =
             [(''type'', JUndefined), (''client_id'', JUndefined), (''realm'', JUndefined),
              (''scope'', JUndefined), (''not_after'', JUndefined), (''user_id'', JUndefined),
              (''error'', JStr ''authorization-header-not-found'')]
         \<and> (\<forall>args. isPermitted (fst (middleware this required now req)) args = Inr False)"
  using assms
  by (simp add: middleware_eq authorize_not_string properties_error_object
        isPermitted_error_object)

theorem absent_header_denied_witness:
  "map_of (properties (fst (middleware example_server [''calendar''] 1000
       (example_request JUndefined)))) ''error'' = Some (JStr ''authorization-header-not-found'')
   \<and> map_of (properties (fst (middleware example_server [''calendar''] 1000
       (example_request JUndefined)))) ''scope'' = Some JUndefined
   \<and> isPermitted (fst (middleware example_server [''calendar''] 1000
       (example_request JUndefined))) [''calendar''] = Inr False"
  using absent_header_denied [of "example_request JUndefined" example_server "[''calendar'']" 1000]
  by simp

text \<open>
  C8. On one request the middleware calls \<^verbatim>\<open>checkToken\<close> exactly once, with the candidate
  token, when the header is a string that starts with \<^verbatim>\<open>bearer \<close> without regard to
  case, and not at all otherwise; never more than once.
\<close>

theorem checkToken_at_most_once:
  "checkToken_calls (snd (middleware this required now req)) =
     (case req_header req ''Authorization'' of
        JStr h \<Rightarrow> if startsWith (toLowerCase h) ''bearer '' then [trim (substr h 7)] else []
      | _ \<Rightarrow> [])
   \<and> length (checkToken_calls (snd (middleware this required now req))) \<le> 1"
  by (simp add: middleware_eq checkToken_calls_authorize split: jsval.splits)

theorem checkToken_at_most_once_witness:
  "checkToken_calls (snd (middleware example_server [] 1000
       (example_request (JStr ''Bearer   abc123  '')))) = [''abc123'']
   \<and> checkToken_calls (snd (middleware example_server [] 1000
       (example_request (JStr ''BEARER nobody'')))) = [''nobody'']
   \<and> checkToken_calls (snd (middleware example_server [] 1000
       (example_request (JStr ''Basic xyz'')))) = []
   \<and> checkToken_calls (snd (middleware example_server [] 1000
       (example_request JUndefined))) = []"
  using checkToken_at_most_once [of example_server "[]" 1000
          "example_request (JStr ''Bearer   abc123  '')"]
        checkToken_at_most_once [of example_server "[]" 1000
          "example_request (JStr ''BEARER nobody'')"]
        checkToken_at_most_once [of example_server "[]" 1000
          "example_request (JStr ''Basic xyz'')"]
        checkToken_at_most_once [of example_server "[]" 1000 "example_request JUndefined"]
  by (simp add: bearer_abc123 token_abc123 bearer_nobody token_nobody not_bearer_basic)

text \<open>
  C9. When \<^verbatim>\<open>checkToken\<close> resolves but the token has expired, nothing of the token info
  reaches the \<^verbatim>\<open>api\<close> object: \<^verbatim>\<open>error\<close> is \<^verbatim>\<open>token-expired\<close>, and \<^verbatim>\<open>type\<close>,
  \<^verbatim>\<open>client_id\<close>, \<^verbatim>\<open>realm\<close>, \<^verbatim>\<open>scope\<close>, \<^verbatim>\<open>not_after\<close> and \<^verbatim>\<open>user_id\<close> are all
  \<^verbatim>\<open>undefined\<close>.
\<close>

theorem expired_token_discards_attributes:
  assumes "req_header req ''Authorization'' = JStr h"
    and "startsWith (toLowerCase h) ''bearer ''"
    and "plugin this (trim (substr h 7)) = Inr tokenInfo"
    and "get tokenInfo ''not_after'' = Inr (JNum n)"
    and "js_gt (Finite (real_of_int now)) n"
  shows "properties (fst (middleware this required now req)) =
           [(''type'', JUndefined), (''client_id'', JUndefined), (''realm'', JUndefined),
            (''scope'', JUndefined), (''not_after'', JUndefined), (''user_id'', JUndefined),
            (''error'', JStr ''token-expired'')]"
  using assms
  by (simp add: middleware_eq authorize_resolves check_expiry_expired properties_error_object)

theorem expired_token_discards_attributes_witness:
  "properties (fst (middleware example_server [] 3000
       (example_request (JStr ''Bearer   abc123  '')))) =
     [(''type'', JUndefined), (''client_id'', JUndefined), (''realm'', JUndefined),
      (''scope'', JUndefined), (''not_after'', JUndefined), (''user_id'', JUndefined),
      (''error'', JStr ''token-expired'')]"
  using expired_token_discards_attributes [OF example_request_header bearer_abc123 plugin_abc123
          not_after_abc123, of 3000 "[]"]
  by simp

section \<open>No scope at all\<close>

text \<open>
  C2, as stated, fails. A request without \<^verbatim>\<open>Authorization\<close> header, served by the
  middleware that \<^verbatim>\<open>scope()\<close> binds to the empty list, gets false from
  \<^verbatim>\<open>isPermitted()\<close>: the test \<^verbatim>\<open>!authorization.scope\<close> returns false before the
  check-list is looked at.
\<close>

theorem no_scopes_not_vacuous_counterexample:
  "isPermitted (fst (snd (scope example_server []) 1000 (example_request JUndefined))) [] =
     Inr False"
  by (simp add: middleware_eq authorize_not_string isPermitted_error_object)

text \<open>
  C2, amended. When no scopes are specified anywhere (the bound list is empty and
  \<^verbatim>\<open>isPermitted\<close> is called without arguments), \<^verbatim>\<open>isPermitted()\<close> returns true exactly
  when the authorization result carries a scope string that is not empty.
\<close>

theorem isPermitted_without_scopes:
  "isPermitted (make_api this [] authorization) [] = Inr True
     \<longleftrightarrow> (\<exists>s. s \<noteq> [] \<and> item_of authorization ''scope'' = JStr s)"
  by (cases "item_of authorization ''scope''")
     (auto simp add: isPermitted_def every_def Let_def)

theorem isPermitted_without_scopes_witness:
  "isPermitted (make_api example_server [] (JObject [(''scope'', JStr ''calendar'')])) [] = Inr True
   \<and> isPermitted (make_api example_server []
         (error_object ''authorization-header-not-found'')) [] \<noteq> Inr True"
  using isPermitted_without_scopes [of example_server "JObject [(''scope'', JStr ''calendar'')]"]
        isPermitted_without_scopes [of example_server
          "error_object ''authorization-header-not-found''"]
  by simp

text \<open>
  C10. When the authorization result has no \<^verbatim>\<open>scope\<close> (it is \<^verbatim>\<open>undefined\<close>) or its scope
  is the empty string, \<^verbatim>\<open>isPermitted\<close> returns false for every argument list, the empty
  one included, under every bound list. So when a middleware bound to the empty list answers
  true to \<^verbatim>\<open>isPermitted()\<close>, the request carried a bearer credential, \<^verbatim>\<open>checkToken\<close>
  resolved with a token info that became the authorization result, and that token info has a
  scope string that is not empty.
\<close>

theorem isPermitted_needs_scope:
  "(get authorization ''scope'' = Inr JUndefined \<or> get authorization ''scope'' = Inr (JStr [])
      \<longrightarrow> (\<forall>required args.
             isPermitted (make_api this required authorization) args = Inr False))
   \<and> (isPermitted (fst (middleware this [] now req)) [] = Inr True
      \<longrightarrow> (\<exists>h tokenInfo s.
             req_header req ''Authorization'' = JStr h
             \<and> startsWith (toLowerCase h) ''bearer ''
             \<and> plugin this (trim (substr h 7)) = Inr tokenInfo
             \<and> api_authorization (fst (middleware this [] now req)) = tokenInfo
             \<and> get tokenInfo ''scope'' = Inr (JStr s) \<and> s \<noteq> []))"
proof (intro conjI impI)
  assume "get authorization ''scope'' = Inr JUndefined
          \<or> get authorization ''scope'' = Inr (JStr [])"
  then have "\<not> truthy (item_of authorization ''scope'')"
    by (auto simp add: item_of_def)
  then show "\<forall>required args. isPermitted (make_api this required authorization) args = Inr False"
    by (simp add: isPermitted_falsy_scope)
next
  let ?v = "req_header req ''Authorization''"
  let ?a = "fst (authorize this now ?v)"
  assume "isPermitted (fst (middleware this [] now req)) [] = Inr True"
  then have yes: "isPermitted (make_api this [] ?a) [] = Inr True"
    by (simp add: middleware_eq)
  have no: "?a \<noteq> error_object tag" for tag
    using yes by (auto simp add: isPermitted_error_object)
  have "typeof ?v = ''string''"
  proof (rule ccontr)
    assume "typeof ?v \<noteq> ''string''"
    then have "?a = error_object ''authorization-header-not-found''"
      by (simp add: authorize_not_string)
    with no show False by blast
  qed
  then obtain h where h: "?v = JStr h"
    by (auto simp add: typeof_string_iff)
  have b: "startsWith (toLowerCase h) ''bearer ''"
  proof (rule ccontr)
    assume "\<not> startsWith (toLowerCase h) ''bearer ''"
    with h have "?a = error_object ''authorization-header-not-bearer''"
      by (simp add: authorize_not_bearer)
    with no show False by blast
  qed
  obtain tokenInfo where p: "plugin this (trim (substr h 7)) = Inr tokenInfo"
  proof (cases "plugin this (trim (substr h 7))")
    case (Inl err)
    with h b have "?a = error_object ''invalid-token''"
      by (simp add: authorize_throws)
    with no show ?thesis by blast
  next
    case (Inr tokenInfo)
    with that show ?thesis .
  qed
  have a: "?a = tokenInfo"
  proof -
    from h b p have "?a = fst (case check_expiry now tokenInfo of
        Inl err \<Rightarrow> (error_object ''invalid-token'',
                    [CheckToken (trim (substr h 7)), LogError ''middleware: valid token'' err])
      | Inr (authorization, evs) \<Rightarrow> (authorization, CheckToken (trim (substr h 7)) # evs))"
      by (simp add: authorize_resolves)
    with check_expiry_cases [of now tokenInfo]
    have "?a = error_object ''invalid-token'' \<or> ?a = error_object ''token-expired''
          \<or> ?a = tokenInfo"
      by auto
    with no show ?thesis by blast
  qed
  from yes a have "isPermitted (make_api this [] tokenInfo) [] = Inr True"
    by simp
  then obtain s where s: "s \<noteq> []" "item_of tokenInfo ''scope'' = JStr s"
    by (cases "item_of tokenInfo ''scope''")
       (auto simp add: isPermitted_def every_def Let_def split: if_splits)
  then have "get tokenInfo ''scope'' = Inr (JStr s)"
    by (cases "get tokenInfo ''scope''") (auto simp add: item_of_def)
  with h b p a s
  show "\<exists>h tokenInfo s.
          req_header req ''Authorization'' = JStr h
          \<and> startsWith (toLowerCase h) ''bearer ''
          \<and> plugin this (trim (substr h 7)) = Inr tokenInfo
          \<and> api_authorization (fst (middleware this [] now req)) = tokenInfo
          \<and> get tokenInfo ''scope'' = Inr (JStr s) \<and> s \<noteq> []"
    by (auto simp add: middleware_eq)
qed

text \<open>
  An empty scope string refuses even the empty check-list; the token \<^verbatim>\<open>forever\<close>, which
  is granted \<^verbatim>\<open>calendar\<close>, passes it.
\<close>

theorem isPermitted_needs_scope_witness:
  "isPermitted (make_api example_server [] (JObject [(''scope'', JStr [])])) [] = Inr False
   \<and> isPermitted (make_api example_server [''calendar''] (JObject [])) [''calendar''] = Inr False
   \<and> isPermitted (fst (middleware example_server [] 3000
         (example_request (JStr ''bearer forever'')))) [] = Inr True
   \<and> (\<exists>tokenInfo s.
         plugin example_server ''forever'' = Inr tokenInfo
         \<and> get tokenInfo ''scope'' = Inr (JStr s) \<and> s \<noteq> [])"
proof -
  have yes: "isPermitted (fst (middleware example_server [] 3000
               (example_request (JStr ''bearer forever'')))) [] = Inr True"
    using bearer_forever plugin_forever not_after_forever
    by (simp add: middleware_eq authorize_resolves check_expiry_not_number
          isPermitted_string_scope item_of_def)
  from isPermitted_needs_scope [of "JObject [(''scope'', JStr [])]" example_server 3000
         "example_request (JStr ''bearer forever'')"]
       isPermitted_needs_scope [of "JObject []" example_server 3000
         "example_request (JStr ''bearer forever'')"]
       yes
  show ?thesis by (auto simp add: token_forever)
qed

section \<open>The challenge header\<close>

text \<open>
  C5. On a server built by the constructor, \<^verbatim>\<open>header()\<close> calls \<^verbatim>\<open>res.status\<close> once, with
  401. It calls \<^verbatim>\<open>res.set\<close> when a discovery URI was given to the constructor (a string
  that is not empty) and not otherwise; the one call then sets \<^verbatim>\<open>WWW-Authenticate\<close> to
  \<^verbatim>\<open>Bearer realm=R, scope=S, webauthz_discovery_uri=D, path=P\<close>, where R, S, D and P are
  the results of \<^verbatim>\<open>encodeURIComponent\<close> on the realm (default \<^verbatim>\<open>Webauthz\<close>), on the bound
  list joined by spaces, on the discovery URI and on the path (default \<^verbatim>\<open>/\<close>).
\<close>

theorem header_status_and_challenge:
  assumes "new_WebauthzExpress opts = Inr this"
  shows "res_status_calls (header (make_api this required authorization)) = [401]
         \<and> res_set_calls (header (make_api this required authorization)) =
             (if given (opt_webauthz_discovery_uri opts)
              then [(''WWW-Authenticate'',
                     ''Bearer realm='' @
                       encodeURIComponent
                         (if given (opt_realm opts) then the (opt_realm opts) else ''Webauthz'') @
                     '', scope='' @ encodeURIComponent (join required '' '') @
                     '', webauthz_discovery_uri='' @
                       encodeURIComponent (the (opt_webauthz_discovery_uri opts)) @
                     '', path='' @
                       encodeURIComponent
                         (if given (opt_path opts) then the (opt_path opts) else ''/''))]
              else [])"
proof (cases "opt_plugin opts")
  case None
  with assms show ?thesis by (simp add: new_WebauthzExpress_def)
next
  case (Some p)
  with assms have
    "realm this = (if given (opt_realm opts) then the (opt_realm opts) else ''Webauthz'')"
    "path this = (if given (opt_path opts) then the (opt_path opts) else ''/'')"
    "webauthz_discovery_uri this =
       (if given (opt_webauthz_discovery_uri opts) then opt_webauthz_discovery_uri opts else None)"
    by (auto simp add: new_WebauthzExpress_def)
  then show ?thesis by (simp add: header_def Let_def)
qed

text \<open>
  Realm \<^verbatim>\<open>Webauthz\<close>, scopes \<^verbatim>\<open>a\<close> and \<^verbatim>\<open>b\<close>, discovery URI \<^verbatim>\<open>https://x/d.json\<close> and
  path \<^verbatim>\<open>/api\<close>; and the same server without discovery URI.
\<close>

theorem header_status_and_challenge_witness:
  "res_status_calls (header (make_api example_server [''a'', ''b''] JNull)) = [401]
   \<and> res_set_calls (header (make_api example_server [''a'', ''b''] JNull)) =
       [(''WWW-Authenticate'',
         ''Bearer realm=Webauthz, scope=a%20b, webauthz_discovery_uri=https%3A%2F%2Fx%2Fd.json, path=%2Fapi'')]
   \<and> res_status_calls (header (make_api (example_server \<lparr> webauthz_discovery_uri := None \<rparr>)
         [''a'', ''b''] JNull)) = [401]
   \<and> res_set_calls (header (make_api (example_server \<lparr> webauthz_discovery_uri := None \<rparr>)
         [''a'', ''b''] JNull)) = []"
  using header_status_and_challenge [OF new_example_server, of "[''a'', ''b'']" JNull]
        header_status_and_challenge [OF new_example_server_without_discovery,
          of "[''a'', ''b'']" JNull]
  by (simp add: example_options_def encoded_realm encoded_scope encoded_discovery_uri
        encoded_path)

section \<open>The extraction of the credential\<close>

text \<open>
  C6. The value of the \<^verbatim>\<open>Authorization\<close> header falls in exactly one of three cases.
  If it is not a string (absent included), the result is
  \<^verbatim>\<open>{ error: 'authorization-header-not-found' }\<close> and the plugin is not called. If it is a
  string that does not start with \<^verbatim>\<open>bearer \<close> without regard to case, the result is
  \<^verbatim>\<open>{ error: 'authorization-header-not-bearer' }\<close> and the plugin is not called. Otherwise
  the first event is the call of \<^verbatim>\<open>checkToken\<close>, the only one, on the candidate token:
  the header without its first seven code units, trimmed; that is, what remains of it once
  the white space before and after is taken away, with no white space at either end.
\<close>

theorem credential_extraction:
  "(typeof v \<noteq> ''string'' \<longrightarrow>
      authorize this now v =
        (error_object ''authorization-header-not-found'',
         [LogTrace ''middleware: no authorization header in request'']))
   \<and> (\<forall>h. v = JStr h \<and> \<not> bearer_ignoring_case h \<longrightarrow>
         authorize this now v =
           (error_object ''authorization-header-not-bearer'',
            [LogTrace ''middleware: authorization header not bearer'']))
   \<and> (\<forall>h. v = JStr h \<and> bearer_ignoring_case h \<longrightarrow>
         (\<exists>evs. snd (authorize this now v) = CheckToken (trim (drop 7 h)) # evs)
         \<and> checkToken_calls (snd (authorize this now v)) = [trim (drop 7 h)]
         \<and> (\<exists>pre suf. drop 7 h = pre @ trim (drop 7 h) @ suf
               \<and> (\<forall>c \<in> set pre. isWhiteSpace c) \<and> (\<forall>c \<in> set suf. isWhiteSpace c))
         \<and> (trim (drop 7 h) \<noteq> [] \<longrightarrow>
               \<not> isWhiteSpace (hd (trim (drop 7 h)))
               \<and> \<not> isWhiteSpace (last (trim (drop 7 h)))))"
proof (intro conjI allI impI)
  assume "typeof v \<noteq> ''string''"
  then show "authorize this now v =
        (error_object ''authorization-header-not-found'',
         [LogTrace ''middleware: no authorization header in request''])"
    by (rule authorize_not_string)
next
  fix h assume "v = JStr h \<and> \<not> bearer_ignoring_case h"
  then show "authorize this now v =
           (error_object ''authorization-header-not-bearer'',
            [LogTrace ''middleware: authorization header not bearer''])"
    by (simp add: authorize_not_bearer startsWith_bearer_iff)
next
  fix h assume a: "v = JStr h \<and> bearer_ignoring_case h"
  then have b: "startsWith (toLowerCase h) ''bearer ''"
    by (simp add: startsWith_bearer_iff)
  show "\<exists>evs. snd (authorize this now v) = CheckToken (trim (drop 7 h)) # evs"
  proof (cases "plugin this (trim (substr h 7))")
    case (Inl err)
    with a b show ?thesis by (simp add: authorize_throws substr_def)
  next
    case (Inr tokenInfo)
    with a b check_expiry_cases [of now tokenInfo] show ?thesis
      by (auto simp add: authorize_resolves substr_def)
  qed
next
  fix h assume "v = JStr h \<and> bearer_ignoring_case h"
  then show "checkToken_calls (snd (authorize this now v)) = [trim (drop 7 h)]"
    by (simp add: checkToken_calls_authorize startsWith_bearer_iff substr_def)
next
  fix h
  show "\<exists>pre suf. drop 7 h = pre @ trim (drop 7 h) @ suf
          \<and> (\<forall>c \<in> set pre. isWhiteSpace c) \<and> (\<forall>c \<in> set suf. isWhiteSpace c)"
    by (rule trim_decomposition)
next
  fix h assume "trim (drop 7 h) \<noteq> []"
  then show "\<not> isWhiteSpace (hd (trim (drop 7 h)))"
    by (simp add: trim_ends)
next
  fix h assume "trim (drop 7 h) \<noteq> []"
  then show "\<not> isWhiteSpace (last (trim (drop 7 h)))"
    by (simp add: trim_ends)
qed

text \<open>
  No header, the header \<^verbatim>\<open>Basic xyz\<close>, and the header \<^verbatim>\<open>Bearer   abc123  \<close>, whose
  token reaches the plugin as \<^verbatim>\<open>abc123\<close>.
\<close>

theorem credential_extraction_witness:
  "fst (authorize example_server 1000 JUndefined) =
     error_object ''authorization-header-not-found''
   \<and> fst (authorize example_server 1000 (JStr ''Basic xyz'')) =
       error_object ''authorization-header-not-bearer''
   \<and> checkToken_calls (snd (authorize example_server 1000 (JStr ''Bearer   abc123  ''))) =
       [''abc123'']"
  using credential_extraction [of JUndefined example_server 1000]
        credential_extraction [of "JStr ''Basic xyz''" example_server 1000]
        credential_extraction [of "JStr ''Bearer   abc123  ''" example_server 1000]
        bearer_ignoring_case_abc123 not_bearer_ignoring_case_basic
  by (simp add: trim_abc123)

end
